theory Spec2Isabelle
  imports Main "HOL-Library.Word"
begin

section \<open>Standard output, panics and sequencing\<close>

text \<open>
  Every example of the repository is a Go program whose only effect is text written to
  standard output, or a panic. A Go function without result is modelled as a \<open>proc\<close>:
  it takes the text written to standard output so far and returns the text written
  afterwards together with the panic that ended the call, if any. A panic leaves standard
  output as it was (the Go runtime reports a panic on standard error).
  The results of \<open>fmt.Println\<close> and \<open>fmt.Printf\<close> (byte count and write error) are
  discarded by every call in the source, so they are not part of the model.
\<close>

datatype error = Panic string

type_synonym stdout = string

type_synonym proc = "stdout \<Rightarrow> error option \<times> stdout"

definition nl :: char where
  "nl = CHR 0x0A"

definition write_out :: "string \<Rightarrow> proc" where
  "write_out w out = (None, out @ w)"

definition panic :: "string \<Rightarrow> proc" where
  "panic msg out = (Some (Panic msg), out)"

text \<open>Statement sequencing \<open>p; q\<close>: a panic in \<open>p\<close> skips \<open>q\<close>.\<close>

definition andThen :: "proc \<Rightarrow> proc \<Rightarrow> proc" where
  "andThen p q out = (case p out of (None, out') \<Rightarrow> q out' | (Some e, out') \<Rightarrow> (Some e, out'))"

text \<open>Calling a method through a nil interface value panics in the Go runtime.\<close>

definition nil_dereference :: string where
  "nil_dereference = ''runtime error: invalid memory address or nil pointer dereference''"

section \<open>The formatting verbs the examples use\<close>

text \<open>\<open>fmt.Println\<close> on string operands: the operands separated by single spaces, then
  a newline.\<close>

fun join_spaces :: "string list \<Rightarrow> string" where
  "join_spaces [] = []"
| "join_spaces [a] = a"
| "join_spaces (a # b # bs) = a @ '' '' @ join_spaces (b # bs)"

definition Println :: "string list \<Rightarrow> proc" where
  "Println operands = write_out (join_spaces operands @ [nl])"

text \<open>\<open>%d\<close> on an \<open>int\<close>: the decimal digits, with a leading minus sign when negative.\<close>

definition digit_char :: "int \<Rightarrow> char" where
  "digit_char d = ''0123456789'' ! nat (d mod 10)"

function digits :: "int \<Rightarrow> string" where
  "digits n = (if n < 10 then [digit_char n] else digits (n div 10) @ [digit_char (n mod 10)])"
  by pat_completeness auto
termination
  by (relation "measure nat") auto

declare digits.simps [simp del]

definition fmt_d :: "int \<Rightarrow> string" where
  "fmt_d i = (if i < 0 then ''-'' @ digits (- i) else digits i)"

text \<open>
  Go's \<open>int\<close> is taken as the 64-bit signed integer of the common platforms, read from a
  word by \<open>sint\<close>.
\<close>

type_synonym go_int = "64 word"

text \<open>
  A \<open>float64\<close> is not a number (\<open>NaN\<close>), an infinity with its sign, or a finite
  value given by its sign, its significand and its binary exponent: \<open>Finite neg m e\<close>
  is the value \<open>m * 2 ^ e\<close>, negated when \<open>neg\<close> holds (so \<open>Finite True 0 0\<close> is the
  negative zero). Every \<open>float64\<close> is one of these values.
\<close>

datatype float64 = Finite bool nat int | Infinity bool | NaN

function bit_length :: "int \<Rightarrow> nat" where
  "bit_length n = (if n \<le> 0 then 0 else Suc (bit_length (n div 2)))"
  by pat_completeness auto
termination
  by (relation "measure nat") auto

declare bit_length.simps [simp del]

text \<open>
  The conversion \<open>float64(amount)\<close> of an integer rounds it to the nearest value with a
  53-bit significand, ties to even. Below \<open>2 ^ 53\<close> in magnitude the conversion is
  exact.
\<close>

definition float64_of_int :: "int \<Rightarrow> float64" where
  "float64_of_int i =
     (let a = \<bar>i\<bar> in
      if a < 2 ^ 53 then Finite (i < 0) (nat a) 0
      else
        let e = bit_length a - 53;
            q = a div 2 ^ e;
            r = a mod 2 ^ e;
            half = 2 ^ (e - 1);
            q' = (if half < r \<or> (r = half \<and> odd q) then q + 1 else q)
        in Finite (i < 0) (nat q') (int e))"

text \<open>
  \<open>%.2f\<close> on a \<open>float64\<close>. A finite value is printed with two decimals: its magnitude
  in hundredths, rounded to the nearest integer with ties to even (the rounding is on the
  exact value of the float), then the minus sign if the sign is set, the digits before
  the point, the point and the two digits after it. The other values print as
  \<open>NaN\<close>, \<open>+Inf\<close> and \<open>-Inf\<close>.
\<close>

definition hundredths :: "nat \<Rightarrow> int \<Rightarrow> int" where
  "hundredths m e =
     (if 0 \<le> e then int m * 100 * 2 ^ nat e
      else
        let k = nat (- e);
            x = int m * 100;
            q = x div 2 ^ k;
            r = x mod 2 ^ k;
            half = 2 ^ (k - 1)
        in if half < r \<or> (r = half \<and> odd q) then q + 1 else q)"

fun fmt_f2 :: "float64 \<Rightarrow> string" where
  "fmt_f2 NaN = ''NaN''"
| "fmt_f2 (Infinity neg) = (if neg then ''-Inf'' else ''+Inf'')"
| "fmt_f2 (Finite neg m e) =
     (let n = hundredths m e in
      (if neg then ''-'' else []) @ digits (n div 100) @ ''.''
        @ [digit_char (n div 10), digit_char n])"

section \<open>Liskov substitution example (src/LiskovSubstitution/main.go)\<close>

text \<open>
  A Go interface value is either nil or a concrete value together with its methods. The
  interface type is modelled as a record of the methods, already applied to the receiver,
  and a value of interface type as an \<open>option\<close> of it, \<open>None\<close> being nil.
\<close>

record Bird =
  Fly :: proc

datatype Sparrow = Sparrow

definition Sparrow_Fly :: "Sparrow \<Rightarrow> proc" where
  "Sparrow_Fly s = Println [''Sparrow is flying'']"

definition Sparrow_as_Bird :: "Sparrow \<Rightarrow> Bird" where
  "Sparrow_as_Bird s = \<lparr>Fly = Sparrow_Fly s\<rparr>"

definition MakeBirdFly :: "Bird option \<Rightarrow> proc" where
  "MakeBirdFly b = (case b of None \<Rightarrow> panic nil_dereference | Some v \<Rightarrow> Fly v)"

definition LSP_main :: proc where
  "LSP_main = MakeBirdFly (Some (Sparrow_as_Bird Sparrow))"

section \<open>Open/closed example (src/unnamed/part\_000, first program)\<close>

record Notification =
  Send :: proc

datatype OCP_EmailService = OCP_EmailService

definition OCP_EmailService_Send :: "OCP_EmailService \<Rightarrow> proc" where
  "OCP_EmailService_Send e = Println [''Sending email...'']"

datatype SmsService = SmsService

definition SmsService_Send :: "SmsService \<Rightarrow> proc" where
  "SmsService_Send s = Println [''Sending SMS...'']"

definition OCP_EmailService_as_Notification :: "OCP_EmailService \<Rightarrow> Notification" where
  "OCP_EmailService_as_Notification e = \<lparr>Send = OCP_EmailService_Send e\<rparr>"

definition SmsService_as_Notification :: "SmsService \<Rightarrow> Notification" where
  "SmsService_as_Notification s = \<lparr>Send = SmsService_Send s\<rparr>"

definition SendNotification :: "Notification option \<Rightarrow> proc" where
  "SendNotification n = (case n of None \<Rightarrow> panic nil_dereference | Some v \<Rightarrow> Send v)"

definition OCP_main :: proc where
  "OCP_main =
     (let email = OCP_EmailService; sms = SmsService in
      andThen (SendNotification (Some (OCP_EmailService_as_Notification email)))
              (SendNotification (Some (SmsService_as_Notification sms))))"

section \<open>Dependency inversion example (src/unnamed/part\_000, second program)\<close>

datatype PDFGenerator = PDFGenerator

definition PDFGenerator_Generate :: "PDFGenerator \<Rightarrow> string \<Rightarrow> proc" where
  "PDFGenerator_Generate p content = Println [''Generating PDF with content:'', content]"

record ReportService =
  pdf :: PDFGenerator

definition ReportService_CreateReport :: "ReportService \<Rightarrow> proc" where
  "ReportService_CreateReport r =
     (let content = ''Annual Financial Report'' in PDFGenerator_Generate (pdf r) content)"

record ReportGenerator =
  Generate :: "string \<Rightarrow> proc"

definition PDFGenerator_as_ReportGenerator :: "PDFGenerator \<Rightarrow> ReportGenerator" where
  "PDFGenerator_as_ReportGenerator p = \<lparr>Generate = PDFGenerator_Generate p\<rparr>"

record ReportServiceOne =
  generator :: "ReportGenerator option"

text \<open>\<open>NewReportServiceOne\<close> returns a pointer to a fresh struct; the only use of the
  pointer is the method call through it, which reads the struct, so the struct itself is
  returned here.\<close>

definition NewReportServiceOne :: "ReportGenerator option \<Rightarrow> ReportServiceOne" where
  "NewReportServiceOne g = \<lparr>generator = g\<rparr>"

definition ReportServiceOne_CreateReport :: "ReportServiceOne \<Rightarrow> proc" where
  "ReportServiceOne_CreateReport r =
     (let content = ''Annual Financial Report'' in
      case generator r of None \<Rightarrow> panic nil_dereference | Some g \<Rightarrow> Generate g content)"

definition DIP_main :: proc where
  "DIP_main =
     (let pdf = PDFGenerator;
          service = NewReportServiceOne (Some (PDFGenerator_as_ReportGenerator pdf))
      in ReportServiceOne_CreateReport service)"

section \<open>Interface segregation example (src/unnamed/part\_001)\<close>

datatype SimplePrinterOne = SimplePrinterOne

definition SimplePrinterOne_Print :: "SimplePrinterOne \<Rightarrow> proc" where
  "SimplePrinterOne_Print s = Println [''Printing document'']"

definition SimplePrinterOne_Scan :: "SimplePrinterOne \<Rightarrow> proc" where
  "SimplePrinterOne_Scan s = panic ''Scan not supported''"

definition SimplePrinterOne_Fax :: "SimplePrinterOne \<Rightarrow> proc" where
  "SimplePrinterOne_Fax s = panic ''Fax not supported''"

datatype SimplePrinter = SimplePrinter

definition SimplePrinter_Print :: "SimplePrinter \<Rightarrow> proc" where
  "SimplePrinter_Print s = Println [''Printing document'']"

datatype AdvancedMachine = AdvancedMachine

definition AdvancedMachine_Print :: "AdvancedMachine \<Rightarrow> proc" where
  "AdvancedMachine_Print a = Println [''Printing document'']"

definition AdvancedMachine_Scan :: "AdvancedMachine \<Rightarrow> proc" where
  "AdvancedMachine_Scan a = Println [''Scanning document'']"

definition AdvancedMachine_Fax :: "AdvancedMachine \<Rightarrow> proc" where
  "AdvancedMachine_Fax a = Println [''Sending fax'']"

text \<open>
  The method declarations of the file as a table: which struct type declares which
  method, and what the method does. \<open>None\<close> is a method the type does not have, so a
  call of it does not compile. An interface is the list of the methods it asks for, and a
  type satisfies it when it declares each of them (Go's structural typing).
\<close>

datatype isp_method = Print | Scan | Fax

datatype isp_value =
    V_SimplePrinterOne SimplePrinterOne
  | V_SimplePrinter SimplePrinter
  | V_AdvancedMachine AdvancedMachine

fun declared_method :: "isp_value \<Rightarrow> isp_method \<Rightarrow> proc option" where
  "declared_method (V_SimplePrinterOne s) Print = Some (SimplePrinterOne_Print s)"
| "declared_method (V_SimplePrinterOne s) Scan = Some (SimplePrinterOne_Scan s)"
| "declared_method (V_SimplePrinterOne s) Fax = Some (SimplePrinterOne_Fax s)"
| "declared_method (V_SimplePrinter s) Print = Some (SimplePrinter_Print s)"
| "declared_method (V_SimplePrinter s) Scan = None"
| "declared_method (V_SimplePrinter s) Fax = None"
| "declared_method (V_AdvancedMachine a) Print = Some (AdvancedMachine_Print a)"
| "declared_method (V_AdvancedMachine a) Scan = Some (AdvancedMachine_Scan a)"
| "declared_method (V_AdvancedMachine a) Fax = Some (AdvancedMachine_Fax a)"

definition method_set :: "isp_value \<Rightarrow> isp_method list" where
  "method_set v = filter (\<lambda>m. \<not> Option.is_none (declared_method v m)) [Print, Scan, Fax]"

datatype isp_interface = Machine | Printer | Scanner | Faxer

fun interface_methods :: "isp_interface \<Rightarrow> isp_method list" where
  "interface_methods Machine = [Print, Scan, Fax]"
| "interface_methods Printer = [Print]"
| "interface_methods Scanner = [Scan]"
| "interface_methods Faxer = [Fax]"

definition satisfies :: "isp_value \<Rightarrow> isp_interface \<Rightarrow> bool" where
  "satisfies v i = list_all (\<lambda>m. m \<in> set (method_set v)) (interface_methods i)"

section \<open>Single responsibility example (src/SingleResponsibility/main.go)\<close>

datatype OrderRepository = OrderRepository

definition OrderRepository_Save :: "OrderRepository \<Rightarrow> go_int \<Rightarrow> proc" where
  "OrderRepository_Save rcv orderID =
     write_out (''Saving order '' @ fmt_d (sint orderID) @ '' to database'' @ [nl])"

datatype PaymentService = PaymentService

definition PaymentService_Process :: "PaymentService \<Rightarrow> float64 \<Rightarrow> proc" where
  "PaymentService_Process p amount =
     write_out (''Processing payment of '' @ fmt_f2 amount @ [nl])"

datatype SRP_EmailService = SRP_EmailService

definition SRP_EmailService_Send :: "SRP_EmailService \<Rightarrow> proc" where
  "SRP_EmailService_Send e = Println [''Sending confirmation email'']"

datatype InvoiceService = InvoiceService

definition InvoiceService_Generate :: "InvoiceService \<Rightarrow> go_int \<Rightarrow> proc" where
  "InvoiceService_Generate i orderID =
     write_out (''Generating invoice for order '' @ fmt_d (sint orderID) @ [nl])"

record OrderService =
  repo :: OrderRepository
  payment :: PaymentService
  email :: SRP_EmailService
  invoice :: InvoiceService

definition OrderService_PlaceOrder :: "OrderService \<Rightarrow> go_int \<Rightarrow> go_int \<Rightarrow> proc" where
  "OrderService_PlaceOrder os orderId amount =
     andThen (OrderRepository_Save (repo os) orderId)
    (andThen (PaymentService_Process (payment os) (float64_of_int (sint amount)))
    (andThen (SRP_EmailService_Send (email os))
             (InvoiceService_Generate (invoice os) orderId)))"

section \<open>The second copy of the single responsibility example (src/unnamed/part\_002)\<close>

text \<open>The file declares the same five types again, in a program of its own; its
  declarations carry the suffix \<open>002\<close> here.\<close>

datatype OrderRepository_002 = OrderRepository_002

definition OrderRepository_002_Save :: "OrderRepository_002 \<Rightarrow> go_int \<Rightarrow> proc" where
  "OrderRepository_002_Save rcv orderID =
     write_out (''Saving order '' @ fmt_d (sint orderID) @ '' to database'' @ [nl])"

datatype PaymentService_002 = PaymentService_002

definition PaymentService_002_Process :: "PaymentService_002 \<Rightarrow> float64 \<Rightarrow> proc" where
  "PaymentService_002_Process p amount =
     write_out (''Processing payment of '' @ fmt_f2 amount @ [nl])"

datatype EmailService_002 = EmailService_002

definition EmailService_002_Send :: "EmailService_002 \<Rightarrow> proc" where
  "EmailService_002_Send e = Println [''Sending confirmation email'']"

datatype InvoiceService_002 = InvoiceService_002

definition InvoiceService_002_Generate :: "InvoiceService_002 \<Rightarrow> go_int \<Rightarrow> proc" where
  "InvoiceService_002_Generate i orderID =
     write_out (''Generating invoice for order '' @ fmt_d (sint orderID) @ [nl])"

record OrderService_002 =
  repo_002 :: OrderRepository_002
  payment_002 :: PaymentService_002
  email_002 :: EmailService_002
  invoice_002 :: InvoiceService_002

definition OrderService_002_PlaceOrder :: "OrderService_002 \<Rightarrow> go_int \<Rightarrow> go_int \<Rightarrow> proc" where
  "OrderService_002_PlaceOrder os orderId amount =
     andThen (OrderRepository_002_Save (repo_002 os) orderId)
    (andThen (PaymentService_002_Process (payment_002 os) (float64_of_int (sint amount)))
    (andThen (EmailService_002_Send (email_002 os))
             (InvoiceService_002_Generate (invoice_002 os) orderId)))"

section \<open>Every operation of the repository\<close>

text \<open>
  The interface types of the repository and the struct types that implement them: only
  \<open>Sparrow\<close> is a \<open>Bird\<close>, \<open>EmailService\<close> and \<open>SmsService\<close> are the
  \<open>Notification\<close>s, and only \<open>PDFGenerator\<close> is a \<open>ReportGenerator\<close>.
\<close>

datatype notification_variant = The_EmailService OCP_EmailService | The_SmsService SmsService

fun as_Notification :: "notification_variant \<Rightarrow> Notification" where
  "as_Notification (The_EmailService e) = OCP_EmailService_as_Notification e"
| "as_Notification (The_SmsService s) = SmsService_as_Notification s"

text \<open>
  A \<open>call\<close> names one method or function declared in the source (the \<open>main\<close>
  functions apart) together with its receiver and arguments; \<open>run\<close> is the call itself.
  An argument of interface type is nil or one of the repository's variants.
\<close>

datatype call =
    Call_Sparrow_Fly Sparrow
  | Call_MakeBirdFly "Sparrow option"
  | Call_OCP_EmailService_Send OCP_EmailService
  | Call_SmsService_Send SmsService
  | Call_SendNotification "notification_variant option"
  | Call_PDFGenerator_Generate PDFGenerator string
  | Call_ReportService_CreateReport ReportService
  | Call_ReportServiceOne_CreateReport "PDFGenerator option"
  | Call_SimplePrinterOne_Print SimplePrinterOne
  | Call_SimplePrinterOne_Scan SimplePrinterOne
  | Call_SimplePrinterOne_Fax SimplePrinterOne
  | Call_SimplePrinter_Print SimplePrinter
  | Call_AdvancedMachine_Print AdvancedMachine
  | Call_AdvancedMachine_Scan AdvancedMachine
  | Call_AdvancedMachine_Fax AdvancedMachine
  | Call_OrderRepository_Save OrderRepository go_int
  | Call_PaymentService_Process PaymentService float64
  | Call_SRP_EmailService_Send SRP_EmailService
  | Call_InvoiceService_Generate InvoiceService go_int
  | Call_OrderService_PlaceOrder OrderService go_int go_int
  | Call_OrderRepository_002_Save OrderRepository_002 go_int
  | Call_PaymentService_002_Process PaymentService_002 float64
  | Call_EmailService_002_Send EmailService_002
  | Call_InvoiceService_002_Generate InvoiceService_002 go_int
  | Call_OrderService_002_PlaceOrder OrderService_002 go_int go_int

fun run :: "call \<Rightarrow> proc" where
  "run (Call_Sparrow_Fly s) = Sparrow_Fly s"
| "run (Call_MakeBirdFly b) = MakeBirdFly (map_option Sparrow_as_Bird b)"
| "run (Call_OCP_EmailService_Send e) = OCP_EmailService_Send e"
| "run (Call_SmsService_Send s) = SmsService_Send s"
| "run (Call_SendNotification n) = SendNotification (map_option as_Notification n)"
| "run (Call_PDFGenerator_Generate p content) = PDFGenerator_Generate p content"
| "run (Call_ReportService_CreateReport r) = ReportService_CreateReport r"
| "run (Call_ReportServiceOne_CreateReport g) =
     ReportServiceOne_CreateReport
       (NewReportServiceOne (map_option PDFGenerator_as_ReportGenerator g))"
| "run (Call_SimplePrinterOne_Print s) = SimplePrinterOne_Print s"
| "run (Call_SimplePrinterOne_Scan s) = SimplePrinterOne_Scan s"
| "run (Call_SimplePrinterOne_Fax s) = SimplePrinterOne_Fax s"
| "run (Call_SimplePrinter_Print s) = SimplePrinter_Print s"
| "run (Call_AdvancedMachine_Print a) = AdvancedMachine_Print a"
| "run (Call_AdvancedMachine_Scan a) = AdvancedMachine_Scan a"
| "run (Call_AdvancedMachine_Fax a) = AdvancedMachine_Fax a"
| "run (Call_OrderRepository_Save r orderID) = OrderRepository_Save r orderID"
| "run (Call_PaymentService_Process p amount) = PaymentService_Process p amount"
| "run (Call_SRP_EmailService_Send e) = SRP_EmailService_Send e"
| "run (Call_InvoiceService_Generate i orderID) = InvoiceService_Generate i orderID"
| "run (Call_OrderService_PlaceOrder os orderId amount) =
     OrderService_PlaceOrder os orderId amount"
| "run (Call_OrderRepository_002_Save r orderID) = OrderRepository_002_Save r orderID"
| "run (Call_PaymentService_002_Process p amount) = PaymentService_002_Process p amount"
| "run (Call_EmailService_002_Send e) = EmailService_002_Send e"
| "run (Call_InvoiceService_002_Generate i orderID) = InvoiceService_002_Generate i orderID"
| "run (Call_OrderService_002_PlaceOrder os orderId amount) =
     OrderService_002_PlaceOrder os orderId amount"

text \<open>The calls that sequence other operations, and the text a call passes on to be
  printed as it is.\<close>

fun is_PlaceOrder :: "call \<Rightarrow> bool" where
  "is_PlaceOrder (Call_OrderService_PlaceOrder os orderId amount) = True"
| "is_PlaceOrder (Call_OrderService_002_PlaceOrder os orderId amount) = True"
| "is_PlaceOrder c = False"

fun content_argument :: "call \<Rightarrow> string" where
  "content_argument (Call_PDFGenerator_Generate p content) = content"
| "content_argument c = []"


section \<open>Reading standard output as lines\<close>

text \<open>The lines of a text: each newline ends a line; text after the last newline is a
  last, unfinished line.\<close>

fun lines_from :: "string \<Rightarrow> string \<Rightarrow> string list" where
  "lines_from cur [] = (if cur = [] then [] else [cur])"
| "lines_from cur (c # cs) =
     (if c = nl then cur # lines_from [] cs else lines_from (cur @ [c]) cs)"

definition output_lines :: "stdout \<Rightarrow> string list" where
  "output_lines out = lines_from [] out"

section \<open>Facts about formatting, lines and sequencing\<close>

lemma digit_char_not_nl: "digit_char d \<noteq> nl"
proof -
  define k where "k = nat (d mod 10)"
  have "k < 10" by (simp add: k_def)
  then have "k = 0 \<or> k = 1 \<or> k = 2 \<or> k = 3 \<or> k = 4 \<or> k = 5 \<or> k = 6 \<or> k = 7 \<or> k = 8 \<or> k = 9"
    by arith
  then have "''0123456789'' ! k \<noteq> nl"
    by (auto simp: nl_def)
  then show ?thesis
    by (simp add: digit_char_def k_def)
qed

lemma digits_no_nl: "nl \<notin> set (digits n)"
proof (induction n rule: digits.induct)
  case (1 n)
  show ?case
  proof (cases "n < 10")
    case True
    then show ?thesis
      using digit_char_not_nl [of n] by (subst digits.simps) auto
  next
    case False
    then show ?thesis
      using "1.IH" digit_char_not_nl [of "n mod 10"] by (subst digits.simps) auto
  qed
qed

lemma fmt_d_no_nl: "nl \<notin> set (fmt_d i)"
  by (simp add: fmt_d_def digits_no_nl) (simp add: nl_def)

lemma fmt_f2_no_nl: "nl \<notin> set (fmt_f2 v)"
proof (cases v)
  case (Finite neg m e)
  then show ?thesis
    using digits_no_nl [of "hundredths m e div 100"]
      digit_char_not_nl [of "hundredths m e div 10"] digit_char_not_nl [of "hundredths m e"]
    by (auto simp: Let_def nl_def)
next
  case (Infinity neg)
  then show ?thesis by (simp add: nl_def)
next
  case NaN
  then show ?thesis by (simp add: nl_def)
qed

text \<open>The conversion and the format at sample values: \<open>12.345\<close>, the tie \<open>0.125\<close>,
  \<open>-0.001\<close> and \<open>2 ^ 53 + 1\<close>.\<close>

lemma digits_12: "digits 12 = ''12''"
  by (simp add: digits.simps [of 12] digits.simps [of 1] digit_char_def)

lemma fmt_f2_12_345: "fmt_f2 (Finite False 6949617174986097 (- 49)) = ''12.35''"
  by (simp add: hundredths_def Let_def digits_12 digit_char_def)

lemma fmt_f2_tie_to_even: "fmt_f2 (Finite False 4503599627370496 (- 55)) = ''0.12''"
  by (simp add: hundredths_def Let_def digits.simps [of 0] digit_char_def)

lemma fmt_f2_small_negative: "fmt_f2 (Finite True 4611686018427388 (- 62)) = ''-0.00''"
  by (simp add: hundredths_def Let_def digits.simps [of 0] digit_char_def)

lemma float64_of_int_exact: "\<bar>i\<bar> < 2 ^ 53 \<Longrightarrow> float64_of_int i = Finite (i < 0) (nat \<bar>i\<bar>) 0"
  by (simp add: float64_of_int_def)

lemma float64_of_int_rounds:
  "float64_of_int 9007199254740993 = Finite False 4503599627370496 1"
  by (simp add: float64_of_int_def Let_def bit_length.simps)

lemma lines_from_line:
  "nl \<notin> set l \<Longrightarrow> lines_from cur (l @ nl # rest) = (cur @ l) # lines_from [] rest"
  by (induction l arbitrary: cur) auto

lemma output_lines_line:
  "nl \<notin> set l \<Longrightarrow> output_lines (l @ nl # rest) = l # output_lines rest"
  by (simp add: output_lines_def lines_from_line)

lemma output_lines_Nil: "output_lines [] = []"
  by (simp add: output_lines_def)

lemma andThen_write_out: "andThen (write_out w) q out = q (out @ w)"
  by (simp add: andThen_def write_out_def)

lemma andThen_panic: "andThen (panic msg) q out = (Some (Panic msg), out)"
  by (simp add: andThen_def panic_def)

lemma Println_one: "Println [a] out = (None, out @ a @ [nl])"
  by (simp add: Println_def write_out_def)

lemma Println_two: "Println [a, b] out = (None, out @ a @ '' '' @ b @ [nl])"
  by (simp add: Println_def write_out_def)

lemmas collaborator_defs =
  OrderRepository_Save_def PaymentService_Process_def SRP_EmailService_Send_def
  InvoiceService_Generate_def

lemma one_line: "nl \<notin> set l \<Longrightarrow> output_lines (l @ [nl]) = [l]"
  using output_lines_line [of l "[]"] by (simp add: output_lines_Nil)

lemmas operation_defs =
  Sparrow_Fly_def MakeBirdFly_def Sparrow_as_Bird_def
  OCP_EmailService_Send_def SmsService_Send_def SendNotification_def
  OCP_EmailService_as_Notification_def SmsService_as_Notification_def
  PDFGenerator_Generate_def ReportService_CreateReport_def ReportServiceOne_CreateReport_def
  NewReportServiceOne_def PDFGenerator_as_ReportGenerator_def
  SimplePrinterOne_Print_def SimplePrinterOne_Scan_def SimplePrinterOne_Fax_def
  SimplePrinter_Print_def AdvancedMachine_Print_def AdvancedMachine_Scan_def
  AdvancedMachine_Fax_def
  OrderRepository_Save_def PaymentService_Process_def SRP_EmailService_Send_def
  InvoiceService_Generate_def OrderService_PlaceOrder_def
  OrderRepository_002_Save_def PaymentService_002_Process_def EmailService_002_Send_def
  InvoiceService_002_Generate_def OrderService_002_PlaceOrder_def


lemma satisfies_Machine_cases:
  "satisfies v Machine \<Longrightarrow>
     v = V_SimplePrinterOne SimplePrinterOne \<or> v = V_AdvancedMachine AdvancedMachine"
proof (cases v)
  case (V_SimplePrinterOne s)
  then show ?thesis by (cases s) simp
next
  case (V_SimplePrinter s)
  assume "satisfies v Machine"
  with V_SimplePrinter show ?thesis
    by (simp add: satisfies_def method_set_def)
next
  case (V_AdvancedMachine a)
  then show ?thesis by (cases a) simp
qed

section \<open>Coordinators dispatch to the variant they hold\<close>

text \<open>
  Claim C1. Each coordinator, given a non-nil value of the interface it expects, is
  exactly the operation of that value: \<open>SendNotification(n)\<close> is \<open>n.Send()\<close>,
  \<open>MakeBirdFly(b)\<close> is \<open>b.Fly()\<close>, and \<open>CreateReport\<close> of a
  \<open>ReportServiceOne\<close> built on generator \<open>g\<close> is
  \<open>g.Generate("Annual Financial Report")\<close>. The equations hold for every value of
  the interface, so the coordinator cannot depend on which variant it holds; for the
  variants of the repository they give the variant's own method.
\<close>

theorem coordinator_runs_variant_operation:
  "SendNotification (Some n) = Send n
   \<and> MakeBirdFly (Some b) = Fly b
   \<and> ReportServiceOne_CreateReport (NewReportServiceOne (Some g))
       = Generate g ''Annual Financial Report''
   \<and> SendNotification (Some (OCP_EmailService_as_Notification e)) = OCP_EmailService_Send e
   \<and> SendNotification (Some (SmsService_as_Notification s)) = SmsService_Send s
   \<and> MakeBirdFly (Some (Sparrow_as_Bird sp)) = Sparrow_Fly sp
   \<and> ReportServiceOne_CreateReport (NewReportServiceOne (Some (PDFGenerator_as_ReportGenerator p)))
       = PDFGenerator_Generate p ''Annual Financial Report''"
  by (simp add: SendNotification_def MakeBirdFly_def ReportServiceOne_CreateReport_def
      NewReportServiceOne_def OCP_EmailService_as_Notification_def
      SmsService_as_Notification_def Sparrow_as_Bird_def PDFGenerator_as_ReportGenerator_def)

section \<open>Order placement sequences its four collaborators\<close>

text \<open>
  Claim C2. For every order id and amount, \<open>PlaceOrder\<close> returns normally and appends
  to standard output exactly four lines, in this order: the line of
  \<open>OrderRepository.Save\<close>, the line of \<open>PaymentService.Process\<close>, the line of
  \<open>EmailService.Send\<close> and the line of \<open>InvoiceService.Generate\<close>. Each
  collaborator on its own writes exactly its one line, and the four lines are pairwise
  different, so each line of the output comes from exactly one collaborator.
\<close>

theorem PlaceOrder_four_lines_in_order:
  "OrderService_PlaceOrder os orderId amount out =
     (None, out @ ''Saving order '' @ fmt_d (sint orderId) @ '' to database'' @ [nl]
                @ ''Processing payment of '' @ fmt_f2 (float64_of_int (sint amount)) @ [nl]
                @ ''Sending confirmation email'' @ [nl]
                @ ''Generating invoice for order '' @ fmt_d (sint orderId) @ [nl])
   \<and> output_lines (snd (OrderService_PlaceOrder os orderId amount [])) =
       [''Saving order '' @ fmt_d (sint orderId) @ '' to database'',
        ''Processing payment of '' @ fmt_f2 (float64_of_int (sint amount)),
        ''Sending confirmation email'',
        ''Generating invoice for order '' @ fmt_d (sint orderId)]
   \<and> output_lines (snd (OrderRepository_Save (repo os) orderId [])) =
       [''Saving order '' @ fmt_d (sint orderId) @ '' to database'']
   \<and> output_lines (snd (PaymentService_Process (payment os) (float64_of_int (sint amount)) [])) =
       [''Processing payment of '' @ fmt_f2 (float64_of_int (sint amount))]
   \<and> output_lines (snd (SRP_EmailService_Send (email os) [])) =
       [''Sending confirmation email'']
   \<and> output_lines (snd (InvoiceService_Generate (invoice os) orderId [])) =
       [''Generating invoice for order '' @ fmt_d (sint orderId)]
   \<and> distinct
       [''Saving order '' @ fmt_d (sint orderId) @ '' to database'',
        ''Processing payment of '' @ fmt_f2 (float64_of_int (sint amount)),
        ''Sending confirmation email'',
        ''Generating invoice for order '' @ fmt_d (sint orderId)]"
proof -
  let ?l1 = "''Saving order '' @ fmt_d (sint orderId) @ '' to database''"
  let ?l2 = "''Processing payment of '' @ fmt_f2 (float64_of_int (sint amount))"
  let ?l3 = "''Sending confirmation email''"
  let ?l4 = "''Generating invoice for order '' @ fmt_d (sint orderId)"
  have n1: "nl \<notin> set ?l1" using fmt_d_no_nl [of "sint orderId"] by (simp add: nl_def)
  have n2: "nl \<notin> set ?l2"
    using fmt_f2_no_nl [of "float64_of_int (sint amount)"] by (simp add: nl_def)
  have n3: "nl \<notin> set ?l3" by (simp add: nl_def)
  have n4: "nl \<notin> set ?l4" using fmt_d_no_nl [of "sint orderId"] by (simp add: nl_def)
  have run: "OrderService_PlaceOrder os orderId amount out =
      (None, out @ ?l1 @ [nl] @ ?l2 @ [nl] @ ?l3 @ [nl] @ ?l4 @ [nl])" for out
    by (simp add: OrderService_PlaceOrder_def collaborator_defs andThen_write_out
        Println_def) (simp add: write_out_def)
  have four: "output_lines (?l1 @ nl # ?l2 @ nl # ?l3 @ nl # ?l4 @ nl # []) = [?l1, ?l2, ?l3, ?l4]"
    by (simp only: output_lines_line [OF n1] output_lines_line [OF n2]
        output_lines_line [OF n3] output_lines_line [OF n4] output_lines_Nil)
  have lines: "output_lines (snd (OrderService_PlaceOrder os orderId amount [])) =
      [?l1, ?l2, ?l3, ?l4]"
    using four by (simp add: run)
  have o1: "output_lines (snd (OrderRepository_Save (repo os) orderId [])) = [?l1]"
    using output_lines_line [OF n1, of "[]"]
    by (simp add: OrderRepository_Save_def write_out_def output_lines_Nil)
  have o2: "output_lines (snd (PaymentService_Process (payment os)
      (float64_of_int (sint amount)) [])) = [?l2]"
    using output_lines_line [OF n2, of "[]"]
    by (simp add: PaymentService_Process_def write_out_def output_lines_Nil)
  have o3: "output_lines (snd (SRP_EmailService_Send (email os) [])) = [?l3]"
    using output_lines_line [OF n3, of "[]"]
    by (simp add: SRP_EmailService_Send_def Println_one output_lines_Nil)
  have o4: "output_lines (snd (InvoiceService_Generate (invoice os) orderId [])) = [?l4]"
    using output_lines_line [OF n4, of "[]"]
    by (simp add: InvoiceService_Generate_def write_out_def output_lines_Nil)
  have d: "distinct [?l1, ?l2, ?l3, ?l4]" by simp
  show ?thesis
    using run [of out] lines o1 o2 o3 o4 d by (simp only: append_assoc simp_thms)
qed

section \<open>The fat interface and the segregated interfaces\<close>

text \<open>
  Claim C4. For every invocation, \<open>SimplePrinterOne.Scan\<close> and
  \<open>SimplePrinterOne.Fax\<close> panic (with the messages "Scan not supported" and "Fax not
  supported") and write nothing, so they never return normally, while
  \<open>SimplePrinterOne.Print\<close> returns normally after writing its line.
\<close>

theorem SimplePrinterOne_stubs_panic:
  "SimplePrinterOne_Scan s out = (Some (Panic ''Scan not supported''), out)
   \<and> SimplePrinterOne_Fax s out = (Some (Panic ''Fax not supported''), out)
   \<and> SimplePrinterOne_Print s out = (None, out @ ''Printing document'' @ [nl])"
  by (simp add: SimplePrinterOne_Scan_def SimplePrinterOne_Fax_def SimplePrinterOne_Print_def
      panic_def Println_one)

text \<open>
  Claim C5. \<open>SimplePrinter\<close> satisfies \<open>Printer\<close> and none of \<open>Scanner\<close>,
  \<open>Faxer\<close> and \<open>Machine\<close>: its method set is \<open>Print\<close> alone, and it declares
  no \<open>Scan\<close> and no \<open>Fax\<close> method at all (the method is absent, not a method that
  fails). \<open>AdvancedMachine\<close> satisfies \<open>Printer\<close>, \<open>Scanner\<close> and \<open>Faxer\<close>,
  and each of its three methods returns normally after writing its line.
\<close>

theorem SimplePrinter_has_no_Scan_or_Fax:
  "satisfies (V_SimplePrinter sp) Printer
   \<and> \<not> satisfies (V_SimplePrinter sp) Scanner
   \<and> \<not> satisfies (V_SimplePrinter sp) Faxer
   \<and> \<not> satisfies (V_SimplePrinter sp) Machine
   \<and> method_set (V_SimplePrinter sp) = [Print]
   \<and> declared_method (V_SimplePrinter sp) Scan = None
   \<and> declared_method (V_SimplePrinter sp) Fax = None
   \<and> declared_method (V_SimplePrinter sp) Print = Some (SimplePrinter_Print sp)
   \<and> SimplePrinter_Print sp out = (None, out @ ''Printing document'' @ [nl])
   \<and> satisfies (V_AdvancedMachine am) Printer
   \<and> satisfies (V_AdvancedMachine am) Scanner
   \<and> satisfies (V_AdvancedMachine am) Faxer
   \<and> method_set (V_AdvancedMachine am) = [Print, Scan, Fax]
   \<and> AdvancedMachine_Print am out = (None, out @ ''Printing document'' @ [nl])
   \<and> AdvancedMachine_Scan am out = (None, out @ ''Scanning document'' @ [nl])
   \<and> AdvancedMachine_Fax am out = (None, out @ ''Sending fax'' @ [nl])"
  by (simp add: satisfies_def method_set_def SimplePrinter_Print_def
      AdvancedMachine_Print_def AdvancedMachine_Scan_def AdvancedMachine_Fax_def Println_one)

section \<open>Two notification variants, two effects\<close>

text \<open>
  Claim C6. \<open>EmailService\<close> and \<open>SmsService\<close> both convert to \<open>Notification\<close>;
  \<open>SendNotification\<close> with the first writes the line "Sending email...", with the
  second the line "Sending SMS...", the two results differ, and \<open>main\<close> writes these
  two lines in this order.
\<close>

theorem two_notifications_two_effects:
  "SendNotification (Some (OCP_EmailService_as_Notification OCP_EmailService)) out
     = (None, out @ ''Sending email...'' @ [nl])
   \<and> SendNotification (Some (SmsService_as_Notification SmsService)) out
     = (None, out @ ''Sending SMS...'' @ [nl])
   \<and> SendNotification (Some (OCP_EmailService_as_Notification OCP_EmailService)) out
     \<noteq> SendNotification (Some (SmsService_as_Notification SmsService)) out
   \<and> OCP_main [] = (None, ''Sending email...'' @ [nl] @ ''Sending SMS...'' @ [nl])
   \<and> output_lines (snd (OCP_main [])) = [''Sending email...'', ''Sending SMS...'']"
  by (simp add: SendNotification_def OCP_EmailService_as_Notification_def
      SmsService_as_Notification_def OCP_EmailService_Send_def SmsService_Send_def
      Println_one OCP_main_def andThen_def output_lines_def nl_def)

section \<open>The two report services agree on the PDF generator\<close>

text \<open>
  Claim C9. \<open>ReportService{pdf: PDFGenerator{}}.CreateReport()\<close> and
  \<open>NewReportServiceOne(PDFGenerator{}).CreateReport()\<close> do the same from every state of
  standard output: both return normally after writing the one line
  "Generating PDF with content: Annual Financial Report".
\<close>

theorem bad_and_good_report_service_agree:
  "ReportService_CreateReport \<lparr>pdf = PDFGenerator\<rparr> out
     = ReportServiceOne_CreateReport
         (NewReportServiceOne (Some (PDFGenerator_as_ReportGenerator PDFGenerator))) out
   \<and> ReportService_CreateReport \<lparr>pdf = PDFGenerator\<rparr> out
     = (None, out @ ''Generating PDF with content: Annual Financial Report'' @ [nl])
   \<and> output_lines (snd (ReportService_CreateReport \<lparr>pdf = PDFGenerator\<rparr> []))
     = [''Generating PDF with content: Annual Financial Report'']
   \<and> output_lines (snd (ReportServiceOne_CreateReport
         (NewReportServiceOne (Some (PDFGenerator_as_ReportGenerator PDFGenerator))) []))
     = [''Generating PDF with content: Annual Financial Report'']"
  by (simp add: ReportService_CreateReport_def ReportServiceOne_CreateReport_def
      NewReportServiceOne_def PDFGenerator_as_ReportGenerator_def PDFGenerator_Generate_def
      Println_two output_lines_def nl_def)

section \<open>The two copies of the order example agree\<close>

text \<open>
  Claim C10. For every order id and amount, and whatever the receivers, \<open>PlaceOrder\<close>
  of src/unnamed/part\_002 and \<open>PlaceOrder\<close> of src/SingleResponsibility/main.go are
  the same procedure: the same result and the same text written, from every state of
  standard output.
\<close>

theorem PlaceOrder_copies_agree:
  "OrderService_002_PlaceOrder os2 orderId amount = OrderService_PlaceOrder os orderId amount"
  by (simp add: OrderService_002_PlaceOrder_def OrderService_PlaceOrder_def collaborator_defs
      OrderRepository_002_Save_def PaymentService_002_Process_def EmailService_002_Send_def
      InvoiceService_002_Generate_def)

section \<open>Which types behind the fat interface perform every operation\<close>

text \<open>
  Claim C3, as stated, fails: \<open>SimplePrinterOne\<close> satisfies \<open>Machine\<close>, and its
  \<open>Scan\<close> is a stub that panics.
\<close>

theorem Machine_stub_counterexample:
  "satisfies (V_SimplePrinterOne SimplePrinterOne) Machine
   \<and> declared_method (V_SimplePrinterOne SimplePrinterOne) Scan
       = Some (SimplePrinterOne_Scan SimplePrinterOne)
   \<and> SimplePrinterOne_Scan SimplePrinterOne [] = (Some (Panic ''Scan not supported''), [])"
  by (simp add: satisfies_def method_set_def SimplePrinterOne_Scan_def panic_def)

text \<open>
  Claim C3, amended. Every type that satisfies \<open>Machine\<close> performs \<open>Print\<close>: the
  call returns normally after writing the line "Printing document". Every such type other
  than \<open>SimplePrinterOne\<close> (that is, \<open>AdvancedMachine\<close>) also performs \<open>Scan\<close>
  and \<open>Fax\<close>, each returning normally after writing its line. The panicking
  \<open>Scan\<close> and \<open>Fax\<close> of \<open>SimplePrinterOne\<close> are what the file shows as the
  bad example.
\<close>

theorem Machine_variants_perform:
  assumes "satisfies v Machine"
  shows "(\<exists>p. declared_method v Print = Some p
            \<and> (\<forall>out. p out = (None, out @ ''Printing document'' @ [nl])))
       \<and> (v \<noteq> V_SimplePrinterOne SimplePrinterOne \<longrightarrow>
            (\<exists>p. declared_method v Scan = Some p
               \<and> (\<forall>out. p out = (None, out @ ''Scanning document'' @ [nl])))
          \<and> (\<exists>p. declared_method v Fax = Some p
               \<and> (\<forall>out. p out = (None, out @ ''Sending fax'' @ [nl]))))"
proof -
  from satisfies_Machine_cases [OF assms] show ?thesis
  proof
    assume "v = V_SimplePrinterOne SimplePrinterOne"
    then show ?thesis
      by (simp add: SimplePrinterOne_Print_def Println_one)
  next
    assume "v = V_AdvancedMachine AdvancedMachine"
    then show ?thesis
      by (simp add: AdvancedMachine_Print_def AdvancedMachine_Scan_def
          AdvancedMachine_Fax_def Println_one)
  qed
qed

theorem Machine_variants_perform_witness:
  "satisfies (V_AdvancedMachine AdvancedMachine) Machine
   \<and> V_AdvancedMachine AdvancedMachine \<noteq> V_SimplePrinterOne SimplePrinterOne
   \<and> (\<exists>p. declared_method (V_AdvancedMachine AdvancedMachine) Scan = Some p
          \<and> (\<forall>out. p out = (None, out @ ''Scanning document'' @ [nl])))
   \<and> (\<exists>p. declared_method (V_AdvancedMachine AdvancedMachine) Fax = Some p
          \<and> (\<forall>out. p out = (None, out @ ''Sending fax'' @ [nl])))
   \<and> (\<exists>p. declared_method (V_AdvancedMachine AdvancedMachine) Print = Some p
          \<and> (\<forall>out. p out = (None, out @ ''Printing document'' @ [nl])))"
proof -
  have h: "satisfies (V_AdvancedMachine AdvancedMachine) Machine"
    by (simp add: satisfies_def method_set_def)
  have d: "V_AdvancedMachine AdvancedMachine \<noteq> V_SimplePrinterOne SimplePrinterOne"
    by simp
  from Machine_variants_perform [OF h] d h show ?thesis
    by blast
qed

section \<open>How many lines an operation writes\<close>

text \<open>
  Claim C7, as stated, fails: \<open>PlaceOrder(1, 5000)\<close> writes four lines,
  \<open>SimplePrinterOne.Scan\<close> panics and writes none, and \<open>PDFGenerator.Generate\<close>
  on a content with a newline in it writes two.
\<close>

theorem one_line_per_operation_counterexample:
  "output_lines (snd (run (Call_OrderService_PlaceOrder
       \<lparr>repo = OrderRepository, payment = PaymentService, email = SRP_EmailService,
        invoice = InvoiceService\<rparr> 1 5000) []))
     = [''Saving order 1 to database'', ''Processing payment of 5000.00'',
        ''Sending confirmation email'', ''Generating invoice for order 1'']
   \<and> run (Call_SimplePrinterOne_Scan SimplePrinterOne) []
     = (Some (Panic ''Scan not supported''), [])
   \<and> output_lines (snd (run (Call_SimplePrinterOne_Scan SimplePrinterOne) [])) = []
   \<and> output_lines (snd (run (Call_PDFGenerator_Generate PDFGenerator
       (''Q1'' @ [nl] @ ''Q2'')) []))
     = [''Generating PDF with content: Q1'', ''Q2'']"
proof -
  have d1: "digits 1 = ''1''" by (subst digits.simps) (simp add: digit_char_def)
  have d5: "digits 5 = ''5''" by (subst digits.simps) (simp add: digit_char_def)
  have d50: "digits 50 = ''50''" by (subst digits.simps) (simp add: digit_char_def d5)
  have d500: "digits 500 = ''500''" by (subst digits.simps) (simp add: digit_char_def d50)
  have d5000: "digits 5000 = ''5000''" by (subst digits.simps) (simp add: digit_char_def d500)
  have f: "fmt_f2 (float64_of_int 5000) = ''5000.00''"
    by (simp add: float64_of_int_def hundredths_def d5000 digit_char_def)
  have a: "output_lines (snd (run (Call_OrderService_PlaceOrder
       \<lparr>repo = OrderRepository, payment = PaymentService, email = SRP_EmailService,
        invoice = InvoiceService\<rparr> 1 5000) []))
     = [''Saving order 1 to database'', ''Processing payment of 5000.00'',
        ''Sending confirmation email'', ''Generating invoice for order 1'']"
    by (simp add: OrderService_PlaceOrder_def OrderRepository_Save_def
        PaymentService_Process_def SRP_EmailService_Send_def InvoiceService_Generate_def
        andThen_write_out Println_def write_out_def fmt_d_def f d1
        output_lines_def nl_def)
  have b: "run (Call_SimplePrinterOne_Scan SimplePrinterOne) []
     = (Some (Panic ''Scan not supported''), [])"
    by (simp add: SimplePrinterOne_Scan_def panic_def)
  have c: "output_lines (snd (run (Call_PDFGenerator_Generate PDFGenerator
       (''Q1'' @ [nl] @ ''Q2'')) []))
     = [''Generating PDF with content: Q1'', ''Q2'']"
    by (simp add: PDFGenerator_Generate_def Println_two output_lines_def nl_def)
  have b': "output_lines (snd (run (Call_SimplePrinterOne_Scan SimplePrinterOne) [])) = []"
    by (simp add: SimplePrinterOne_Scan_def panic_def output_lines_Nil)
  from a b b' c show ?thesis by (simp only: simp_thms)
qed

text \<open>
  Claim C7, amended. Every operation that returns normally, is not \<open>PlaceOrder\<close>,
  and is not given a content with a newline in it, appends exactly one line, ended by a
  newline, to standard output, whatever was written before.
\<close>

theorem one_line_per_simple_operation:
  assumes "fst (run c []) = None"
    and "\<not> is_PlaceOrder c"
    and "nl \<notin> set (content_argument c)"
  shows "\<exists>l. (\<forall>out. run c out = (None, out @ l @ [nl]))
            \<and> output_lines (snd (run c [])) = [l]"
proof -
  have "\<exists>l. nl \<notin> set l \<and> (\<forall>out. run c out = (None, out @ l @ [nl]))"
  proof (cases c)
    case (Call_MakeBirdFly b)
    with assms(1) show ?thesis
      by (cases b) (simp_all add: operation_defs Println_one panic_def, simp add: nl_def)
  next
    case (Call_SendNotification n)
    show ?thesis
    proof (cases n)
      case None
      with Call_SendNotification assms(1) show ?thesis
        by (simp add: operation_defs panic_def)
    next
      case (Some v)
      with Call_SendNotification show ?thesis
        by (cases v) (simp_all add: operation_defs Println_one, simp_all add: nl_def)
    qed
  next
    case (Call_ReportServiceOne_CreateReport g)
    with assms(1) show ?thesis
      by (cases g) (simp_all add: operation_defs Println_two panic_def, simp add: nl_def)
  next
    case (Call_PDFGenerator_Generate p content)
    with assms(3) have "nl \<notin> set (''Generating PDF with content:'' @ '' '' @ content)"
      by (simp add: nl_def)
    moreover have "\<forall>out. run c out
        = (None, out @ (''Generating PDF with content:'' @ '' '' @ content) @ [nl])"
      by (simp add: Call_PDFGenerator_Generate PDFGenerator_Generate_def Println_two)
    ultimately show ?thesis by blast
  next
    case (Call_ReportService_CreateReport r)
    then show ?thesis
      by (simp add: operation_defs Println_two) (simp add: nl_def)
  next
    case (Call_SimplePrinterOne_Scan s)
    with assms(1) show ?thesis by (simp add: operation_defs panic_def)
  next
    case (Call_SimplePrinterOne_Fax s)
    with assms(1) show ?thesis by (simp add: operation_defs panic_def)
  next
    case (Call_OrderService_PlaceOrder os orderId amount)
    with assms(2) show ?thesis by simp
  next
    case (Call_OrderService_002_PlaceOrder os orderId amount)
    with assms(2) show ?thesis by simp
  next
    case (Call_OrderRepository_Save r orderID)
    have "nl \<notin> set (''Saving order '' @ fmt_d (sint orderID) @ '' to database'')"
      using fmt_d_no_nl [of "sint orderID"] by (simp add: nl_def)
    moreover have "\<forall>out. run c out
        = (None, out @ (''Saving order '' @ fmt_d (sint orderID) @ '' to database'') @ [nl])"
      by (simp add: Call_OrderRepository_Save OrderRepository_Save_def write_out_def)
    ultimately show ?thesis by blast
  next
    case (Call_OrderRepository_002_Save r orderID)
    have "nl \<notin> set (''Saving order '' @ fmt_d (sint orderID) @ '' to database'')"
      using fmt_d_no_nl [of "sint orderID"] by (simp add: nl_def)
    moreover have "\<forall>out. run c out
        = (None, out @ (''Saving order '' @ fmt_d (sint orderID) @ '' to database'') @ [nl])"
      by (simp add: Call_OrderRepository_002_Save OrderRepository_002_Save_def write_out_def)
    ultimately show ?thesis by blast
  next
    case (Call_PaymentService_Process p amount)
    have "nl \<notin> set (''Processing payment of '' @ fmt_f2 amount)"
      using fmt_f2_no_nl [of amount] by (simp add: nl_def)
    moreover have "\<forall>out. run c out
        = (None, out @ (''Processing payment of '' @ fmt_f2 amount) @ [nl])"
      by (simp add: Call_PaymentService_Process PaymentService_Process_def write_out_def)
    ultimately show ?thesis by blast
  next
    case (Call_PaymentService_002_Process p amount)
    have "nl \<notin> set (''Processing payment of '' @ fmt_f2 amount)"
      using fmt_f2_no_nl [of amount] by (simp add: nl_def)
    moreover have "\<forall>out. run c out
        = (None, out @ (''Processing payment of '' @ fmt_f2 amount) @ [nl])"
      by (simp add: Call_PaymentService_002_Process PaymentService_002_Process_def write_out_def)
    ultimately show ?thesis by blast
  next
    case (Call_InvoiceService_Generate i orderID)
    have "nl \<notin> set (''Generating invoice for order '' @ fmt_d (sint orderID))"
      using fmt_d_no_nl [of "sint orderID"] by (simp add: nl_def)
    moreover have "\<forall>out. run c out
        = (None, out @ (''Generating invoice for order '' @ fmt_d (sint orderID)) @ [nl])"
      by (simp add: Call_InvoiceService_Generate InvoiceService_Generate_def write_out_def)
    ultimately show ?thesis by blast
  next
    case (Call_InvoiceService_002_Generate i orderID)
    have "nl \<notin> set (''Generating invoice for order '' @ fmt_d (sint orderID))"
      using fmt_d_no_nl [of "sint orderID"] by (simp add: nl_def)
    moreover have "\<forall>out. run c out
        = (None, out @ (''Generating invoice for order '' @ fmt_d (sint orderID)) @ [nl])"
      by (simp add: Call_InvoiceService_002_Generate InvoiceService_002_Generate_def write_out_def)
    ultimately show ?thesis by blast
  qed (simp_all add: operation_defs Println_one, simp_all add: nl_def)
  then obtain l where l: "nl \<notin> set l" "\<And>out. run c out = (None, out @ l @ [nl])"
    by blast
  have "output_lines (snd (run c [])) = [l]"
    using one_line [OF l(1)] by (simp add: l(2))
  with l(2) show ?thesis by blast
qed

theorem one_line_per_simple_operation_witness:
  "fst (run (Call_PDFGenerator_Generate PDFGenerator ''Q1'') []) = None
   \<and> \<not> is_PlaceOrder (Call_PDFGenerator_Generate PDFGenerator ''Q1'')
   \<and> nl \<notin> set (content_argument (Call_PDFGenerator_Generate PDFGenerator ''Q1''))
   \<and> (\<exists>l. (\<forall>out. run (Call_PDFGenerator_Generate PDFGenerator ''Q1'') out
              = (None, out @ l @ [nl]))
        \<and> output_lines (snd (run (Call_PDFGenerator_Generate PDFGenerator ''Q1'') [])) = [l])"
proof -
  have h1: "fst (run (Call_PDFGenerator_Generate PDFGenerator ''Q1'') []) = None"
    by (simp add: PDFGenerator_Generate_def Println_two)
  have h2: "\<not> is_PlaceOrder (Call_PDFGenerator_Generate PDFGenerator ''Q1'')"
    by simp
  have h3: "nl \<notin> set (content_argument (Call_PDFGenerator_Generate PDFGenerator ''Q1''))"
    by (simp add: nl_def)
  from one_line_per_simple_operation [OF h1 h2 h3] h1 h2 h3 show ?thesis
    by (simp only: simp_thms)
qed

section \<open>No operation keeps state\<close>


end
